theory Spec2Isabelle
  imports Main
begin

section \<open>Track references\<close>

text \<open>
  \<^verbatim>\<open>VideoConference.tsx\<close> asks \<^verbatim>\<open>useTracks\<close> for two sources,
  \<^verbatim>\<open>Track.Source.Camera\<close> (with placeholders) and \<^verbatim>\<open>Track.Source.ScreenShare\<close>
  (without).
\<close>

datatype source = Camera | ScreenShare

text \<open>
  The component reads two fields of a publication: \<^verbatim>\<open>publication.source\<close> and
  \<^verbatim>\<open>publication.trackSid\<close>.
\<close>

record trackPublication =
  source :: source
  trackSid :: string

record trackReference =
  participant :: string
  publication :: trackPublication

text \<open>
  Modelled from the spec: the type \<^verbatim>\<open>TrackReferenceOrPlaceholder\<close> is declared in
  \<^verbatim>\<open>@livekit/components-core\<close>, which is not among the sources. The spec describes a track
  as a source type, a track id and a placeholder bit, a placeholder being a participant slot
  with no active publication. A reference therefore carries a publication, a placeholder
  only the participant and the source it stands for.
\<close>

datatype trackReferenceOrPlaceholder =
  TrackReference trackReference
| TrackReferencePlaceholder string source

text \<open>
  Modelled from the spec: \<^verbatim>\<open>isTrackReference\<close> is the type guard of
  \<^verbatim>\<open>@livekit/components-core\<close>; placeholders never pass it. In TypeScript
  \<^verbatim>\<open>tracks.filter(isTrackReference)\<close> narrows the element type to \<^verbatim>\<open>TrackReference\<close>,
  so the guard returns the narrowed value.
\<close>

fun isTrackReference :: "trackReferenceOrPlaceholder \<Rightarrow> trackReference option" where
  "isTrackReference (TrackReference r) = Some r"
| "isTrackReference (TrackReferencePlaceholder _ _) = None"

text \<open>
  \<^verbatim>\<open>x?.publication?.trackSid\<close> for \<^verbatim>\<open>x\<close> a reference, a placeholder, \<^verbatim>\<open>null\<close> or
  \<^verbatim>\<open>undefined\<close>: \<^verbatim>\<open>undefined\<close> is \<open>None\<close>.
\<close>

fun optTrackSid :: "trackReferenceOrPlaceholder option \<Rightarrow> string option" where
  "optTrackSid None = None"
| "optTrackSid (Some (TrackReferencePlaceholder _ _)) = None"
| "optTrackSid (Some (TrackReference r)) = Some (trackSid (publication r))"

section \<open>The values derived on every render\<close>

text \<open>
  \<^verbatim>\<open>tracks.filter(isTrackReference)
        .filter((track) => track.publication.source === Track.Source.ScreenShare)\<close>
\<close>

definition screenShareTracks :: "trackReferenceOrPlaceholder list \<Rightarrow> trackReference list" where
  "screenShareTracks tracks =
     filter (\<lambda>track. source (publication track) = ScreenShare)
       (List.map_filter isTrackReference tracks)"

text \<open>
  \<^verbatim>\<open>usePinnedTracks(layoutContext)?.[0]\<close>: the hook is not among the sources, so its
  return value (a list of pinned tracks, or \<^verbatim>\<open>undefined\<close>) is the argument.
\<close>

fun focusTrack :: "trackReferenceOrPlaceholder list option \<Rightarrow> trackReferenceOrPlaceholder option" where
  "focusTrack None = None"
| "focusTrack (Some []) = None"
| "focusTrack (Some (p # _)) = Some p"

text \<open>
  \<^verbatim>\<open>tracks.filter((track) => !isEqualTrackRef(track, focusTrack))\<close>.
  \<^verbatim>\<open>isEqualTrackRef\<close> comes from \<^verbatim>\<open>@livekit/components-core\<close> and is a parameter here;
  its second argument may be \<^verbatim>\<open>undefined\<close>.
\<close>

definition carouselTracks ::
  "(trackReferenceOrPlaceholder \<Rightarrow> trackReferenceOrPlaceholder option \<Rightarrow> bool) \<Rightarrow>
   trackReferenceOrPlaceholder list \<Rightarrow> trackReferenceOrPlaceholder option \<Rightarrow>
   trackReferenceOrPlaceholder list" where
  "carouselTracks isEqual tracks focus =
     filter (\<lambda>track. \<not> isEqual track focus) tracks"

section \<open>The auto-focus effect\<close>

text \<open>The two messages the effect hands to \<^verbatim>\<open>layoutContext.pin.dispatch\<close>.\<close>

datatype pin_action =
  set_pin trackReferenceOrPlaceholder
| clear_pin

text \<open>
  One run of the effect body. Its inputs are the values in scope of the closure: the tracks
  of this render, the pinned track of this render (the body never reads it) and
  \<^verbatim>\<open>lastAutoFocusedScreenShareTrack.current\<close>. Its result is the list of messages passed to
  \<^verbatim>\<open>dispatch?.(...)\<close>, in order, and the new value of the ref. An object is always truthy,
  so \<^verbatim>\<open>lastAutoFocusedScreenShareTrack.current && ...\<close> tests for \<^verbatim>\<open>null\<close>.
\<close>

definition autoFocusEffect ::
  "trackReferenceOrPlaceholder list \<Rightarrow> trackReferenceOrPlaceholder option \<Rightarrow>
   trackReferenceOrPlaceholder option \<Rightarrow>
   pin_action list \<times> trackReferenceOrPlaceholder option" where
  "autoFocusEffect tracks focus current =
     (let sst = screenShareTracks tracks in
      if length sst > 0 \<and> current = None then
        ([set_pin (TrackReference (sst ! 0))], Some (TrackReference (sst ! 0)))
      else if current \<noteq> None \<and>
          \<not> list_ex (\<lambda>track. Some (trackSid (publication track)) = optTrackSid current) sst then
        ([clear_pin], None)
      else ([], current))"

text \<open>
  \<^verbatim>\<open>dispatch?.(msg)\<close>: the dispatch function of the pin store is optional; without it
  the messages are dropped.
\<close>

fun dispatch :: "(pin_action \<Rightarrow> 's \<Rightarrow> 's) option \<Rightarrow> pin_action list \<Rightarrow> 's \<Rightarrow> 's" where
  "dispatch None msgs s = s"
| "dispatch (Some d) msgs s = fold d msgs s"

text \<open>
  Modelled from the spec: the Pin State Store (the pin reducer behind
  \<^verbatim>\<open>useCreateLayoutContext\<close>) is not among the sources. The spec says it holds at most one
  pinned track and takes the two actions: \<^verbatim>\<open>set_pin\<close> makes the track the pinned one,
  \<^verbatim>\<open>clear_pin\<close> empties the store.
\<close>

fun pinReducer :: "pin_action \<Rightarrow> trackReferenceOrPlaceholder list \<Rightarrow> trackReferenceOrPlaceholder list" where
  "pinReducer (set_pin t) state = [t]"
| "pinReducer clear_pin state = []"

text \<open>
  \<^verbatim>\<open>Array.prototype.join()\<close> with its default separator, a comma.
\<close>

fun join :: "string list \<Rightarrow> string" where
  "join [] = []"
| "join [x] = x"
| "join (x # y # ys) = x @ '','' @ join (y # ys)"

text \<open>
  The dependency list of the effect:
  \<^verbatim>\<open>[screenShareTracks.map((ref) => ref.publication.trackSid).join(),
     focusTrack?.publication?.trackSid]\<close>.
\<close>

definition autoFocusDeps ::
  "trackReferenceOrPlaceholder list \<Rightarrow> trackReferenceOrPlaceholder option \<Rightarrow>
   string \<times> string option" where
  "autoFocusDeps tracks focus =
     (join (map (\<lambda>ref. trackSid (publication ref)) (screenShareTracks tracks)),
      optTrackSid focus)"

text \<open>
  What the controller keeps between renders: the ref, and the dependency list of the
  previous render (\<open>None\<close> before the first render).
\<close>

record autoFocusState =
  current :: "trackReferenceOrPlaceholder option"
  lastDeps :: "(string \<times> string option) option"

text \<open>
  One render as \<^verbatim>\<open>React.useEffect\<close> schedules it: the body runs after the first render
  and after every render whose dependency list differs from the previous one; otherwise
  nothing runs and nothing changes.
\<close>

definition autoFocusRender ::
  "trackReferenceOrPlaceholder list \<Rightarrow> trackReferenceOrPlaceholder option \<Rightarrow>
   autoFocusState \<Rightarrow> pin_action list \<times> autoFocusState" where
  "autoFocusRender tracks focus st =
     (let deps = autoFocusDeps tracks focus in
      if lastDeps st = Some deps then ([], st)
      else (fst (autoFocusEffect tracks focus (current st)),
            \<lparr>current = snd (autoFocusEffect tracks focus (current st)),
             lastDeps = Some deps\<rparr>))"

section \<open>The layout branch\<close>

text \<open>
  What the component renders inside \<^verbatim>\<open>lk-video-conference-inner\<close>: a
  \<^verbatim>\<open>GridLayout\<close> over all tracks when \<^verbatim>\<open>!focusTrack\<close>, otherwise a
  \<^verbatim>\<open>FocusLayoutContainer\<close> holding the \<^verbatim>\<open>CarouselLayout\<close> over \<^verbatim>\<open>carouselTracks\<close> and
  the \<^verbatim>\<open>FocusLayout\<close> of the pinned track.
\<close>

datatype layout =
  GridLayout "trackReferenceOrPlaceholder list"
| FocusLayoutContainer "trackReferenceOrPlaceholder list" trackReferenceOrPlaceholder

definition VideoConference_layout ::
  "(trackReferenceOrPlaceholder \<Rightarrow> trackReferenceOrPlaceholder option \<Rightarrow> bool) \<Rightarrow>
   trackReferenceOrPlaceholder list \<Rightarrow> trackReferenceOrPlaceholder list option \<Rightarrow> layout" where
  "VideoConference_layout isEqual tracks pinned =
     (case focusTrack pinned of
        None \<Rightarrow> GridLayout tracks
      | Some p \<Rightarrow> FocusLayoutContainer (carouselTracks isEqual tracks (Some p)) p)"

section \<open>The waiting toast and its timer\<close>

text \<open>
  The state \<^verbatim>\<open>waiting\<close> (a string or \<^verbatim>\<open>null\<close>), the callbacks registered with
  \<^verbatim>\<open>setTimeout\<close> that have not fired yet, each by the time at which it fires, in the
  order of registration, and the clock, in milliseconds. Every callback is
  \<^verbatim>\<open>() => setWaiting(null)\<close>, so its fire time is all there is to keep. The source never
  calls \<^verbatim>\<open>clearTimeout\<close> and the effect returns no cleanup function, so a callback leaves
  the list only by firing.
\<close>

record waitingState =
  waiting :: "string option"
  timers :: "nat list"
  now :: nat

text \<open>JavaScript truthiness of a string or \<^verbatim>\<open>null\<close>: only a non-empty string is truthy.\<close>

fun truthy :: "string option \<Rightarrow> bool" where
  "truthy None = False"
| "truthy (Some s) = (s \<noteq> [])"

text \<open>
  The body of the effect on \<^verbatim>\<open>[waiting]\<close>:
  \<^verbatim>\<open>if (waiting) { setTimeout(() => { setWaiting(null); }, 3000); }\<close>
\<close>

definition waitingEffect :: "waitingState \<Rightarrow> waitingState" where
  "waitingEffect st =
     (if truthy (waiting st) then st\<lparr>timers := timers st @ [now st + 3000]\<rparr> else st)"

text \<open>
  The state setter of \<^verbatim>\<open>React.useState\<close>, each call a turn of its own: setting the value
  the state already has changes nothing, and the effect, whose only dependency is
  \<^verbatim>\<open>waiting\<close>, does not run; setting another value re-renders and runs the effect.
\<close>

definition setWaiting :: "string option \<Rightarrow> waitingState \<Rightarrow> waitingState" where
  "setWaiting v st = (if waiting st = v then st else waitingEffect (st\<lparr>waiting := v\<rparr>))"

text \<open>
  \<^verbatim>\<open>const setWaitingMessage = (message: string) => {
    if (showParticipantButton) { setWaiting(message); } };\<close>
\<close>

definition setWaitingMessage :: "bool \<Rightarrow> string \<Rightarrow> waitingState \<Rightarrow> waitingState" where
  "setWaitingMessage showParticipantButton message st =
     (if showParticipantButton then setWaiting (Some message) st else st)"

text \<open>
  Time passes until \<open>t\<close>: the callbacks due by then fire, in the order of registration,
  and leave the list; each calls \<^verbatim>\<open>setWaiting(null)\<close>.
\<close>

definition advance :: "nat \<Rightarrow> waitingState \<Rightarrow> waitingState" where
  "advance t st =
     fold (\<lambda>_. setWaiting None) (filter (\<lambda>d. d \<le> t) (timers st))
       (st\<lparr>timers := filter (\<lambda>d. \<not> d \<le> t) (timers st), now := max (now st) t\<rparr>)"

text \<open>
  The toast: \<^verbatim>\<open>waiting ? <Toast ...><UserToggle>{waiting}</UserToggle></Toast> : <></>\<close>;
  \<open>None\<close> is the empty fragment.
\<close>

definition toast :: "waitingState \<Rightarrow> string option" where
  "toast st = (if truthy (waiting st) then waiting st else None)"

text \<open>The component after mounting: no message, no pending callback.\<close>

definition mounted :: "nat \<Rightarrow> waitingState" where
  "mounted t = \<lparr>waiting = None, timers = [], now = t\<rparr>"

text \<open>
  Modelled from the spec: \<^verbatim>\<open>isEqualTrackRef\<close> is not among the sources. The spec says the
  pinned track is compared by equality of the track reference value, not by track id alone.
  The properties below hold for every comparison; this one serves in the examples.
\<close>

definition isEqualTrackRef ::
  "trackReferenceOrPlaceholder \<Rightarrow> trackReferenceOrPlaceholder option \<Rightarrow> bool" where
  "isEqualTrackRef a b = (b = Some a)"

text \<open>Concrete tracks used in the examples below.\<close>

definition c1 :: trackReferenceOrPlaceholder where
  "c1 = TrackReference \<lparr>participant = ''alice'',
          publication = \<lparr>source = Camera, trackSid = ''c1''\<rparr>\<rparr>"

definition s1 :: trackReferenceOrPlaceholder where
  "s1 = TrackReference \<lparr>participant = ''alice'',
          publication = \<lparr>source = ScreenShare, trackSid = ''s1''\<rparr>\<rparr>"

definition s2 :: trackReferenceOrPlaceholder where
  "s2 = TrackReference \<lparr>participant = ''bob'',
          publication = \<lparr>source = ScreenShare, trackSid = ''s2''\<rparr>\<rparr>"

definition p1 :: trackReferenceOrPlaceholder where
  "p1 = TrackReferencePlaceholder ''bob'' Camera"

text \<open>The controller before the first render: the ref is \<^verbatim>\<open>null\<close>, no effect has run.\<close>

definition autoFocusMounted :: autoFocusState where
  "autoFocusMounted = \<lparr>current = None, lastDeps = None\<rparr>"

text \<open>
  A history of renders, oldest first, each with the tracks and the pinned track it saw.
\<close>

fun autoFocusRenders ::
  "(trackReferenceOrPlaceholder list \<times> trackReferenceOrPlaceholder option) list \<Rightarrow>
   autoFocusState \<Rightarrow> autoFocusState" where
  "autoFocusRenders [] st = st"
| "autoFocusRenders ((tracks, focus) # rs) st =
     autoFocusRenders rs (snd (autoFocusRender tracks focus st))"

text \<open>
  Track ids as a server issues them: not empty and without a comma. Only for such ids
  does the joined string of the dependency list determine the list of ids.
\<close>

definition wellFormedSid :: "string \<Rightarrow> bool" where
  "wellFormedSid sid = (sid \<noteq> [] \<and> CHR '','' \<notin> set sid)"

definition wellFormedSids :: "trackReferenceOrPlaceholder list \<Rightarrow> bool" where
  "wellFormedSids tracks =
     list_all (\<lambda>ref. wellFormedSid (trackSid (publication ref))) (screenShareTracks tracks)"

text \<open>Screen shares whose ids collide in the joined string.\<close>

definition sab :: trackReferenceOrPlaceholder where
  "sab = TrackReference \<lparr>participant = ''carol'',
          publication = \<lparr>source = ScreenShare, trackSid = ''a,b''\<rparr>\<rparr>"

definition sa :: trackReferenceOrPlaceholder where
  "sa = TrackReference \<lparr>participant = ''dave'',
          publication = \<lparr>source = ScreenShare, trackSid = ''a''\<rparr>\<rparr>"

definition sb :: trackReferenceOrPlaceholder where
  "sb = TrackReference \<lparr>participant = ''erin'',
          publication = \<lparr>source = ScreenShare, trackSid = ''b''\<rparr>\<rparr>"

section \<open>Properties of the auto-focus effect\<close>

text \<open>The three branches of the body, one lemma each.\<close>

lemma autoFocusEffect_set:
  assumes "screenShareTracks tracks \<noteq> []"
  shows "autoFocusEffect tracks focus None =
    ([set_pin (TrackReference (screenShareTracks tracks ! 0))],
     Some (TrackReference (screenShareTracks tracks ! 0)))"
  using assms by (simp add: autoFocusEffect_def Let_def)

lemma autoFocusEffect_clear:
  assumes "\<forall>track \<in> set (screenShareTracks tracks).
             Some (trackSid (publication track)) \<noteq> optTrackSid (Some lastRef)"
  shows "autoFocusEffect tracks focus (Some lastRef) = ([clear_pin], None)"
  using assms by (simp add: autoFocusEffect_def Let_def list_ex_iff)

lemma autoFocusEffect_keep:
  assumes "\<exists>track \<in> set (screenShareTracks tracks).
             Some (trackSid (publication track)) = optTrackSid (Some lastRef)"
  shows "autoFocusEffect tracks focus (Some lastRef) = ([], Some lastRef)"
  using assms by (simp add: autoFocusEffect_def Let_def list_ex_iff)

lemma autoFocusEffect_idle:
  assumes "screenShareTracks tracks = []"
  shows "autoFocusEffect tracks focus None = ([], None)"
  using assms by (simp add: autoFocusEffect_def Let_def)

lemma autoFocusEffect_cases:
  "autoFocusEffect tracks focus cur = ([], cur) \<or>
   autoFocusEffect tracks focus cur = ([clear_pin], None) \<and> cur \<noteq> None \<or>
   autoFocusEffect tracks focus cur =
     ([set_pin (TrackReference (screenShareTracks tracks ! 0))],
      Some (TrackReference (screenShareTracks tracks ! 0))) \<and>
     cur = None \<and> screenShareTracks tracks \<noteq> []"
  by (auto simp add: autoFocusEffect_def Let_def)

text \<open>Once the first screen-share track is in the ref, the same tracks cause no action.\<close>

lemma autoFocusEffect_after_set:
  assumes "screenShareTracks tracks \<noteq> []"
  shows "autoFocusEffect tracks focus (Some (TrackReference (screenShareTracks tracks ! 0)))
     = ([], Some (TrackReference (screenShareTracks tracks ! 0)))"
proof -
  have "screenShareTracks tracks ! 0 \<in> set (screenShareTracks tracks)"
    using assms by simp
  then show ?thesis
    by (intro autoFocusEffect_keep) auto
qed

text \<open>A run without action leaves the ref as it was, whatever track is pinned.\<close>

lemma autoFocusEffect_steady:
  assumes "fst (autoFocusEffect tracks focus cur) = []"
  shows "autoFocusEffect tracks focus' cur = ([], cur)"
  using assms by (auto simp add: autoFocusEffect_def Let_def split: if_splits)

text \<open>
  Three runs on the same tracks: the first may clear, the second may then pin the first
  screen-share track, the third has nothing left to do.
\<close>

lemma autoFocusEffect_third:
  "fst (autoFocusEffect tracks f3
     (snd (autoFocusEffect tracks f2 (snd (autoFocusEffect tracks f1 cur))))) = []"
proof -
  consider (keep) "autoFocusEffect tracks f1 cur = ([], cur)"
    | (clear) "autoFocusEffect tracks f1 cur = ([clear_pin], None)"
    | (pin) "autoFocusEffect tracks f1 cur =
        ([set_pin (TrackReference (screenShareTracks tracks ! 0))],
         Some (TrackReference (screenShareTracks tracks ! 0)))"
        "screenShareTracks tracks \<noteq> []"
    using autoFocusEffect_cases [of tracks f1 cur] by blast
  then show ?thesis
  proof cases
    case keep
    then have "fst (autoFocusEffect tracks f1 cur) = []" by simp
    then have "\<And>f. autoFocusEffect tracks f cur = ([], cur)"
      by (rule autoFocusEffect_steady)
    then show ?thesis by simp
  next
    case clear
    show ?thesis
    proof (cases "screenShareTracks tracks = []")
      case True
      then show ?thesis using clear by (simp add: autoFocusEffect_idle)
    next
      case False
      then show ?thesis
        using clear by (simp add: autoFocusEffect_set autoFocusEffect_after_set)
    qed
  next
    case pin
    then show ?thesis by (simp add: autoFocusEffect_after_set)
  qed
qed

text \<open>
  How a render relates to the body: the body runs on the first render and whenever the
  dependency list changed; a render with the dependency list of the previous one runs
  nothing.
\<close>

lemma autoFocusRender_run:
  assumes "lastDeps st \<noteq> Some (autoFocusDeps tracks focus)"
  shows "fst (autoFocusRender tracks focus st) = fst (autoFocusEffect tracks focus (current st))"
    and "current (snd (autoFocusRender tracks focus st)) =
           snd (autoFocusEffect tracks focus (current st))"
  using assms by (simp_all add: autoFocusRender_def Let_def)

lemma autoFocusRender_skip:
  assumes "lastDeps st = Some (autoFocusDeps tracks focus)"
  shows "autoFocusRender tracks focus st = ([], st)"
  using assms by (simp add: autoFocusRender_def Let_def)

text \<open>A track left in the ref by a run of the body has its id among the screen shares.\<close>

lemma autoFocusEffect_ref_present:
  assumes "snd (autoFocusEffect tracks focus cur) = Some l"
  shows "\<exists>track \<in> set (screenShareTracks tracks).
           Some (trackSid (publication track)) = optTrackSid (Some l)"
proof -
  consider (pin) "screenShareTracks tracks \<noteq> []" "cur = None"
    | (keep) "cur = Some l"
        "list_ex (\<lambda>track. Some (trackSid (publication track)) = optTrackSid cur)
           (screenShareTracks tracks)"
    using assms by (auto simp add: autoFocusEffect_def Let_def split: if_splits)
  then show ?thesis
  proof cases
    case pin
    then have "l = TrackReference (screenShareTracks tracks ! 0)"
      using assms by (simp add: autoFocusEffect_set)
    moreover have "screenShareTracks tracks ! 0 \<in> set (screenShareTracks tracks)"
      using pin(1) by simp
    ultimately show ?thesis by auto
  next
    case keep
    then show ?thesis by (simp add: list_ex_iff)
  qed
qed

section \<open>The dependency list and the ids it joins\<close>

text \<open>
  For well-formed ids the first id of a joined string is what precedes its first comma,
  and the rest is the joined string of the other ids; so the joined string determines
  the list.
\<close>

lemma takeWhile_join:
  assumes "list_all wellFormedSid (x # xs)"
  shows "takeWhile (\<lambda>c. c \<noteq> CHR '','') (join (x # xs)) = x"
proof (cases xs)
  case Nil
  then show ?thesis using assms by (auto simp add: wellFormedSid_def)
next
  case (Cons y ys)
  have "takeWhile (\<lambda>c. c \<noteq> CHR '','') (x @ CHR '','' # join (y # ys)) = x"
    using assms by (subst takeWhile_append2) (auto simp add: wellFormedSid_def)
  then show ?thesis using Cons by simp
qed

lemma dropWhile_join:
  assumes "list_all wellFormedSid (x # xs)"
  shows "dropWhile (\<lambda>c. c \<noteq> CHR '','') (join (x # xs)) =
           (if xs = [] then [] else CHR '','' # join xs)"
proof (cases xs)
  case Nil
  then show ?thesis using assms by (auto simp add: wellFormedSid_def)
next
  case (Cons y ys)
  have "dropWhile (\<lambda>c. c \<noteq> CHR '','') (x @ CHR '','' # join (y # ys)) = CHR '','' # join (y # ys)"
    using assms by (subst dropWhile_append2) (auto simp add: wellFormedSid_def)
  then show ?thesis using Cons by simp
qed

lemma join_inj:
  assumes "list_all wellFormedSid xs" and "list_all wellFormedSid ys" and "join xs = join ys"
  shows "xs = ys"
  using assms
proof (induction xs arbitrary: ys)
  case Nil
  show ?case
  proof (cases ys)
    case Nil
    then show ?thesis by simp
  next
    case (Cons y ys')
    then have "takeWhile (\<lambda>c. c \<noteq> CHR '','') (join ys) = y"
      using Nil.prems(2) takeWhile_join by blast
    moreover have "y \<noteq> []" using Cons Nil.prems(2) by (simp add: wellFormedSid_def)
    ultimately show ?thesis using Nil.prems(3) by auto
  qed
next
  case (Cons x xs)
  show ?case
  proof (cases ys)
    case Nil
    have "takeWhile (\<lambda>c. c \<noteq> CHR '','') (join (x # xs)) = x"
      using Cons.prems(1) by (rule takeWhile_join)
    moreover have "x \<noteq> []" using Cons.prems(1) by (simp add: wellFormedSid_def)
    ultimately show ?thesis using Cons.prems(3) Nil by auto
  next
    case ys: (Cons y ys')
    have wy: "list_all wellFormedSid (y # ys')" using Cons.prems(2) ys by simp
    have "x = y"
      using takeWhile_join [OF Cons.prems(1)] takeWhile_join [OF wy] Cons.prems(3) ys by simp
    moreover have d: "(if xs = [] then [] else CHR '','' # join xs) =
        (if ys' = [] then [] else CHR '','' # join ys')"
      using dropWhile_join [OF Cons.prems(1)] dropWhile_join [OF wy] Cons.prems(3) ys by simp
    have "xs = ys'"
    proof (cases "xs = []")
      case True
      then show ?thesis using d by (auto split: if_splits)
    next
      case False
      then have "ys' \<noteq> []" and "join xs = join ys'" using d by (auto split: if_splits)
      then show ?thesis using Cons.IH [of ys'] Cons.prems(1) wy by simp
    qed
    ultimately show ?thesis using ys by simp
  qed
qed


text \<open>What holds of the ref after any history of renders with well-formed ids.\<close>

lemma autoFocusRender_ref_in_key:
  assumes "wellFormedSids tracks"
    and "current st = Some l \<Longrightarrow> \<exists>tracks0 focus0. lastDeps st = Some (autoFocusDeps tracks0 focus0) \<and>
          wellFormedSids tracks0 \<and>
          (\<exists>track \<in> set (screenShareTracks tracks0).
             Some (trackSid (publication track)) = optTrackSid (Some l))"
    and "current (snd (autoFocusRender tracks focus st)) = Some l"
  shows "\<exists>tracks0 focus0.
          lastDeps (snd (autoFocusRender tracks focus st)) = Some (autoFocusDeps tracks0 focus0) \<and>
          wellFormedSids tracks0 \<and>
          (\<exists>track \<in> set (screenShareTracks tracks0).
             Some (trackSid (publication track)) = optTrackSid (Some l))"
proof (cases "lastDeps st = Some (autoFocusDeps tracks focus)")
  case True
  then have "snd (autoFocusRender tracks focus st) = st"
    by (simp add: autoFocusRender_def Let_def)
  then show ?thesis using assms(2,3) by simp
next
  case False
  then have st': "snd (autoFocusRender tracks focus st) =
      \<lparr>current = snd (autoFocusEffect tracks focus (current st)),
       lastDeps = Some (autoFocusDeps tracks focus)\<rparr>"
    by (simp add: autoFocusRender_def Let_def)
  then have "snd (autoFocusEffect tracks focus (current st)) = Some l"
    using assms(3) by simp
  then have "\<exists>track \<in> set (screenShareTracks tracks).
           Some (trackSid (publication track)) = optTrackSid (Some l)"
    by (rule autoFocusEffect_ref_present)
  then show ?thesis using st' assms(1) by auto
qed

lemma autoFocusRenders_ref_in_key:
  assumes "list_all (\<lambda>r. wellFormedSids (fst r)) rs"
    and "\<And>l. current st = Some l \<Longrightarrow> \<exists>tracks0 focus0. lastDeps st = Some (autoFocusDeps tracks0 focus0) \<and>
          wellFormedSids tracks0 \<and>
          (\<exists>track \<in> set (screenShareTracks tracks0).
             Some (trackSid (publication track)) = optTrackSid (Some l))"
    and "current (autoFocusRenders rs st) = Some l"
  shows "\<exists>tracks0 focus0.
          lastDeps (autoFocusRenders rs st) = Some (autoFocusDeps tracks0 focus0) \<and>
          wellFormedSids tracks0 \<and>
          (\<exists>track \<in> set (screenShareTracks tracks0).
             Some (trackSid (publication track)) = optTrackSid (Some l))"
  using assms
proof (induction rs arbitrary: st)
  case Nil
  then show ?case by simp
next
  case (Cons r rs)
  obtain tracks focus where r: "r = (tracks, focus)" by (cases r)
  have wf: "wellFormedSids tracks" and rest: "list_all (\<lambda>r. wellFormedSids (fst r)) rs"
    using Cons.prems(1) r by simp_all
  have step: "\<And>l. current (snd (autoFocusRender tracks focus st)) = Some l \<Longrightarrow>
      \<exists>tracks0 focus0.
          lastDeps (snd (autoFocusRender tracks focus st)) = Some (autoFocusDeps tracks0 focus0) \<and>
          wellFormedSids tracks0 \<and>
          (\<exists>track \<in> set (screenShareTracks tracks0).
             Some (trackSid (publication track)) = optTrackSid (Some l))"
    using autoFocusRender_ref_in_key [OF wf Cons.prems(2)] by blast
  show ?case
    using Cons.IH [OF rest step] Cons.prems(3) r by simp
qed

lemma same_key_same_sids:
  assumes "wellFormedSids tracks0" and "wellFormedSids tracks"
    and "autoFocusDeps tracks0 focus0 = autoFocusDeps tracks focus"
  shows "map (\<lambda>ref. trackSid (publication ref)) (screenShareTracks tracks0) =
         map (\<lambda>ref. trackSid (publication ref)) (screenShareTracks tracks)"
proof (rule join_inj)
  show "list_all wellFormedSid (map (\<lambda>ref. trackSid (publication ref)) (screenShareTracks tracks0))"
    using assms(1) by (simp add: wellFormedSids_def list_all_iff)
  show "list_all wellFormedSid (map (\<lambda>ref. trackSid (publication ref)) (screenShareTracks tracks))"
    using assms(2) by (simp add: wellFormedSids_def list_all_iff)
  show "join (map (\<lambda>ref. trackSid (publication ref)) (screenShareTracks tracks0)) =
        join (map (\<lambda>ref. trackSid (publication ref)) (screenShareTracks tracks))"
    using assms(3) by (simp add: autoFocusDeps_def)
qed

text \<open>After mount, an update in which the id in the ref has left always changes the key.\<close>

lemma departed_changes_key:
  assumes "list_all (\<lambda>r. wellFormedSids (fst r)) rs" and "wellFormedSids tracks"
    and "current (autoFocusRenders rs autoFocusMounted) = Some lastRef"
    and "\<forall>track \<in> set (screenShareTracks tracks).
           Some (trackSid (publication track)) \<noteq> optTrackSid (Some lastRef)"
  shows "lastDeps (autoFocusRenders rs autoFocusMounted) \<noteq> Some (autoFocusDeps tracks focus)"
proof
  assume same: "lastDeps (autoFocusRenders rs autoFocusMounted) = Some (autoFocusDeps tracks focus)"
  have "\<exists>tracks0 focus0.
          lastDeps (autoFocusRenders rs autoFocusMounted) = Some (autoFocusDeps tracks0 focus0) \<and>
          wellFormedSids tracks0 \<and>
          (\<exists>track \<in> set (screenShareTracks tracks0).
             Some (trackSid (publication track)) = optTrackSid (Some lastRef))"
    using assms(1) _ assms(3)
    by (rule autoFocusRenders_ref_in_key) (simp add: autoFocusMounted_def)
  then obtain tracks0 focus0 track where
    key: "autoFocusDeps tracks0 focus0 = autoFocusDeps tracks focus"
    and wf0: "wellFormedSids tracks0"
    and tr: "track \<in> set (screenShareTracks tracks0)"
      "Some (trackSid (publication track)) = optTrackSid (Some lastRef)"
    using same by auto
  have "map (\<lambda>ref. trackSid (publication ref)) (screenShareTracks tracks0) =
        map (\<lambda>ref. trackSid (publication ref)) (screenShareTracks tracks)"
    using wf0 assms(2) key by (rule same_key_same_sids)
  then have "trackSid (publication track) \<in>
      set (map (\<lambda>ref. trackSid (publication ref)) (screenShareTracks tracks))"
    using tr(1) by (metis image_eqI list.set_map)
  then show False using assms(4) tr(2) by auto
qed

text \<open>
  Claim C1, as amended. The effect body runs on the first render and on every render whose
  dependency list (the comma-joined ids of the screen-share tracks, and the id of the
  pinned track) differs from that of the render before. On such an update, whenever the
  list of screen-share tracks is not empty and the ref is empty, exactly one message goes
  to the pin store, \<open>set_pin\<close> of the first screen-share track, and that track is
  stored in the ref; this holds whatever track is pinned, and the pin store then holds
  that track alone, whatever it held before. On an update with the dependency list of the
  render before, nothing runs and no message is sent.
\<close>

theorem C1_auto_pin_first_screen_share:
  assumes "screenShareTracks tracks \<noteq> []" and "current st = None"
  shows "(lastDeps st \<noteq> Some (autoFocusDeps tracks (focusTrack pinned)) \<longrightarrow>
            autoFocusRender tracks (focusTrack pinned) st =
              ([set_pin (TrackReference (screenShareTracks tracks ! 0))],
               \<lparr>current = Some (TrackReference (screenShareTracks tracks ! 0)),
                lastDeps = Some (autoFocusDeps tracks (focusTrack pinned))\<rparr>) \<and>
            dispatch (Some pinReducer)
                (fst (autoFocusRender tracks (focusTrack pinned) st)) state =
              [TrackReference (screenShareTracks tracks ! 0)]) \<and>
         (lastDeps st = Some (autoFocusDeps tracks (focusTrack pinned)) \<longrightarrow>
            autoFocusRender tracks (focusTrack pinned) st = ([], st)) \<and>
         autoFocusRender tracks (focusTrack pinned) autoFocusMounted =
           ([set_pin (TrackReference (screenShareTracks tracks ! 0))],
            \<lparr>current = Some (TrackReference (screenShareTracks tracks ! 0)),
             lastDeps = Some (autoFocusDeps tracks (focusTrack pinned))\<rparr>)"
  using assms
  by (simp add: autoFocusRender_def Let_def autoFocusEffect_set autoFocusMounted_def)

text \<open>
  An instance: a camera track is pinned by hand, two screen shares arrive, the ref is
  empty; the first screen share replaces the pinned camera track. A further render with
  the same dependency list does nothing.
\<close>

theorem C1_witness:
  "screenShareTracks [c1, s1, p1, s2] \<noteq> [] \<and>
   autoFocusRender [c1, s1, p1, s2] (focusTrack (Some [c1]))
       \<lparr>current = None, lastDeps = Some ([], None)\<rparr> =
     ([set_pin s1], \<lparr>current = Some s1, lastDeps = Some (''s1,s2'', Some ''c1'')\<rparr>) \<and>
   dispatch (Some pinReducer)
     (fst (autoFocusRender [c1, s1, p1, s2] (focusTrack (Some [c1]))
        \<lparr>current = None, lastDeps = Some ([], None)\<rparr>)) [c1] = [s1] \<and>
   autoFocusRender [c1, s1, p1, s2] (focusTrack (Some [c1]))
       \<lparr>current = None, lastDeps = Some (''s1,s2'', Some ''c1'')\<rparr> =
     ([], \<lparr>current = None, lastDeps = Some (''s1,s2'', Some ''c1'')\<rparr>)"
  using C1_auto_pin_first_screen_share [where tracks = "[c1, s1, p1, s2]"
      and st = "\<lparr>current = None, lastDeps = Some ([], None)\<rparr>"
      and pinned = "Some [c1]" and state = "[c1]"]
    C1_auto_pin_first_screen_share [where tracks = "[c1, s1, p1, s2]"
      and st = "\<lparr>current = None, lastDeps = Some (''s1,s2'', Some ''c1'')\<rparr>"
      and pinned = "Some [c1]" and state = "[c1]"]
  by (simp add: autoFocusDeps_def screenShareTracks_def c1_def s1_def s2_def p1_def)

text \<open>
  The claim as first stated fails after this history: \<open>s1\<close> is shared and pinned
  automatically, the user unpins it, then \<open>s1\<close> leaves as \<open>s2\<close> arrives, which
  clears the ref. In the next snapshot update \<open>s2\<close> is shared and the ref is empty,
  but the dependency list is the one of the render before, and no \<open>set_pin\<close> is
  sent.
\<close>

theorem C1_counterexample:
  "autoFocusRenders
       [([c1, s1], None), ([c1, s1], Some s1), ([c1, s1], None), ([c1, s2], None)]
       autoFocusMounted =
     \<lparr>current = None, lastDeps = Some (''s2'', None)\<rparr> \<and>
   screenShareTracks [c1, p1, s2] \<noteq> [] \<and>
   autoFocusRender [c1, p1, s2] None \<lparr>current = None, lastDeps = Some (''s2'', None)\<rparr> =
     ([], \<lparr>current = None, lastDeps = Some (''s2'', None)\<rparr>)"
  by (simp add: autoFocusEffect_def autoFocusRender_def autoFocusDeps_def autoFocusMounted_def
      screenShareTracks_def c1_def s1_def s2_def p1_def)

text \<open>
  Claim C2, as amended. On every update at which the effect body runs (the first render,
  or a dependency list that differs from that of the render before), whenever the ref
  holds a track and no screen-share track of the snapshot has its track id, exactly
  \<open>clear_pin\<close> goes to the pin store and the ref is emptied, whatever else the
  snapshot contains. When all ids of screen-share tracks are well formed, the body does
  run on every such update after mount, so then the pin is cleared on every snapshot
  update in which the id in the ref has left.
\<close>

theorem C2_auto_clear:
  assumes "current st = Some lastRef"
    and "\<forall>track \<in> set (screenShareTracks tracks).
           Some (trackSid (publication track)) \<noteq> optTrackSid (Some lastRef)"
  shows "(lastDeps st \<noteq> Some (autoFocusDeps tracks focus) \<longrightarrow>
            autoFocusRender tracks focus st =
              ([clear_pin], \<lparr>current = None, lastDeps = Some (autoFocusDeps tracks focus)\<rparr>)) \<and>
         (st = autoFocusRenders rs autoFocusMounted \<and>
          list_all (\<lambda>r. wellFormedSids (fst r)) rs \<and> wellFormedSids tracks \<longrightarrow>
            autoFocusRender tracks focus st =
              ([clear_pin], \<lparr>current = None, lastDeps = Some (autoFocusDeps tracks focus)\<rparr>))"
proof -
  have run: "autoFocusRender tracks focus st =
      ([clear_pin], \<lparr>current = None, lastDeps = Some (autoFocusDeps tracks focus)\<rparr>)"
    if "lastDeps st \<noteq> Some (autoFocusDeps tracks focus)"
    using that assms by (simp add: autoFocusRender_def Let_def autoFocusEffect_clear)
  have "lastDeps st \<noteq> Some (autoFocusDeps tracks focus)"
    if "st = autoFocusRenders rs autoFocusMounted"
      and "list_all (\<lambda>r. wellFormedSids (fst r)) rs" and "wellFormedSids tracks"
    using departed_changes_key [of rs tracks lastRef focus] that assms by simp
  then show ?thesis using run by blast
qed

text \<open>
  An instance: \<open>s1\<close> was pinned automatically after mount; in the next update it is
  gone, while a camera track, a placeholder and another screen share remain.
\<close>

theorem C2_witness:
  "autoFocusRenders [([c1, s1], None), ([c1, s1], Some s1)] autoFocusMounted =
     \<lparr>current = Some s1, lastDeps = Some (''s1'', Some ''s1'')\<rparr> \<and>
   wellFormedSids [c1, s1] \<and> wellFormedSids [c1, p1, s2] \<and>
   map (\<lambda>track. trackSid (publication track)) (screenShareTracks [c1, p1, s2]) = [''s2''] \<and>
   optTrackSid (Some s1) = Some ''s1'' \<and>
   autoFocusRender [c1, p1, s2] (Some s1)
       (autoFocusRenders [([c1, s1], None), ([c1, s1], Some s1)] autoFocusMounted) =
     ([clear_pin], \<lparr>current = None, lastDeps = Some (''s2'', Some ''s1'')\<rparr>)"
  using C2_auto_clear [where st = "autoFocusRenders [([c1, s1], None), ([c1, s1], Some s1)] autoFocusMounted"
      and lastRef = s1 and tracks = "[c1, p1, s2]" and focus = "Some s1"
      and rs = "[([c1, s1], None), ([c1, s1], Some s1)]"]
  by (simp add: autoFocusEffect_def autoFocusRender_def autoFocusDeps_def autoFocusMounted_def
      wellFormedSids_def wellFormedSid_def screenShareTracks_def c1_def s1_def s2_def p1_def)

text \<open>
  The claim as first stated fails when ids collide in the joined string: the ref holds
  the screen share with id \<open>a,b\<close>, which leaves as the screen shares \<open>a\<close> and
  \<open>b\<close> arrive. No track has the id in the ref, but the dependency list is unchanged
  and no \<open>clear_pin\<close> is sent.
\<close>

theorem C2_counterexample:
  "autoFocusRenders [([sab], None), ([sab], Some sab)] autoFocusMounted =
     \<lparr>current = Some sab, lastDeps = Some (''a,b'', Some ''a,b'')\<rparr> \<and>
   map (\<lambda>track. trackSid (publication track)) (screenShareTracks [sa, sb]) = [''a'', ''b''] \<and>
   optTrackSid (Some sab) = Some ''a,b'' \<and>
   autoFocusRender [sa, sb] (Some sab)
       \<lparr>current = Some sab, lastDeps = Some (''a,b'', Some ''a,b'')\<rparr> =
     ([], \<lparr>current = Some sab, lastDeps = Some (''a,b'', Some ''a,b'')\<rparr>)"
  by (simp add: autoFocusEffect_def autoFocusRender_def autoFocusDeps_def autoFocusMounted_def
      screenShareTracks_def sab_def sa_def sb_def)

text \<open>
  Claim C9. The clear branch never looks at the pinned track: when the ref names a screen
  share that has left and another track \<open>X\<close> has been pinned meanwhile, the effect still
  passes \<open>clear_pin\<close>, and a pin store holding \<open>X\<close> is empty afterwards.
\<close>

theorem C9_clear_ignores_current_pin:
  assumes "\<forall>track \<in> set (screenShareTracks tracks).
             Some (trackSid (publication track)) \<noteq> optTrackSid (Some lastRef)"
  shows "autoFocusEffect tracks (focusTrack (Some [X])) (Some lastRef) = ([clear_pin], None) \<and>
         dispatch (Some pinReducer)
           (fst (autoFocusEffect tracks (focusTrack (Some [X])) (Some lastRef))) [X] = []"
  using assms by (simp add: autoFocusEffect_clear)

text \<open>
  An instance: the ref names the departed screen share \<open>s1\<close>, the camera track \<open>c1\<close>
  is pinned by hand and still in the snapshot; the pin on \<open>c1\<close> is removed.
\<close>

theorem C9_witness:
  "screenShareTracks [c1, p1] = [] \<and>
   optTrackSid (Some s1) = Some ''s1'' \<and>
   c1 \<noteq> s1 \<and>
   autoFocusEffect [c1, p1] (focusTrack (Some [c1])) (Some s1) = ([clear_pin], None) \<and>
   dispatch (Some pinReducer)
     (fst (autoFocusEffect [c1, p1] (focusTrack (Some [c1])) (Some s1))) [c1] = []"
  using C9_clear_ignores_current_pin [of "[c1, p1]" s1 c1]
  by (simp add: screenShareTracks_def c1_def s1_def p1_def)

text \<open>
  Claim C7. Every update passes at most one message to the pin store, be it a run of the
  body or a render. A render with the same tracks and the same pinned track as the one
  before passes none and changes nothing. A run of the body that passes no message leaves
  the ref unchanged, so every later run on the same tracks passes none either; and on the
  same tracks that state is reached after at most two runs, as the third one passes no
  message, whatever is pinned in between.
\<close>

theorem C7_idempotent:
  "length (fst (autoFocusEffect tracks focus cur)) \<le> 1 \<and>
   length (fst (autoFocusRender tracks focus st)) \<le> 1 \<and>
   autoFocusRender tracks focus (snd (autoFocusRender tracks focus st)) =
     ([], snd (autoFocusRender tracks focus st)) \<and>
   (fst (autoFocusEffect tracks focus cur) = [] \<longrightarrow>
      autoFocusEffect tracks focus' cur = ([], cur)) \<and>
   fst (autoFocusEffect tracks f3
     (snd (autoFocusEffect tracks f2 (snd (autoFocusEffect tracks f1 cur))))) = []"
proof -
  have one: "length (fst (autoFocusEffect tracks f c)) \<le> 1" for f c
    using autoFocusEffect_cases [of tracks f c] by auto
  have "length (fst (autoFocusRender tracks focus st)) \<le> 1"
    using one by (simp add: autoFocusRender_def Let_def)
  moreover have "autoFocusRender tracks focus (snd (autoFocusRender tracks focus st)) =
     ([], snd (autoFocusRender tracks focus st))"
    by (simp add: autoFocusRender_def Let_def)
  ultimately show ?thesis
    using one autoFocusEffect_steady autoFocusEffect_third by blast
qed

text \<open>
  Two instances. With \<open>s1\<close> in the ref and in the snapshot nothing happens, and a second
  render after the one that pinned \<open>s1\<close> does nothing. With \<open>s1\<close> in the ref and only
  \<open>s2\<close> in the snapshot the first run clears, the second pins \<open>s2\<close>, the third does
  nothing.
\<close>

theorem C7_witness:
  "fst (autoFocusEffect [c1, s1] None (Some s1)) = [] \<and>
   autoFocusEffect [c1, s1] (Some c1) (Some s1) = ([], Some s1) \<and>
   autoFocusRender [c1, s1] None \<lparr>current = None, lastDeps = None\<rparr> =
     ([set_pin s1], \<lparr>current = Some s1, lastDeps = Some (''s1'', None)\<rparr>) \<and>
   autoFocusRender [c1, s1] None \<lparr>current = Some s1, lastDeps = Some (''s1'', None)\<rparr> =
     ([], \<lparr>current = Some s1, lastDeps = Some (''s1'', None)\<rparr>) \<and>
   autoFocusEffect [c1, s2] (Some s1) (Some s1) = ([clear_pin], None) \<and>
   autoFocusEffect [c1, s2] None None = ([set_pin s2], Some s2) \<and>
   fst (autoFocusEffect [c1, s2] (Some s2) (Some s2)) = []"
  using C7_idempotent [where tracks = "[c1, s1]" and focus = None and cur = "Some s1"
      and st = "\<lparr>current = None, lastDeps = None\<rparr>" and focus' = "Some c1"
      and ?f1.0 = None and ?f2.0 = None and ?f3.0 = None]
    C7_idempotent [where tracks = "[c1, s2]" and focus = None and cur = "Some s1"
      and st = "\<lparr>current = None, lastDeps = None\<rparr>" and focus' = None
      and ?f1.0 = "Some s1" and ?f2.0 = None and ?f3.0 = "Some s2"]
  by (simp add: autoFocusEffect_def autoFocusRender_def autoFocusDeps_def
      screenShareTracks_def c1_def s1_def s2_def)

section \<open>Properties of the layout branch\<close>

text \<open>
  Claim C5. With a track \<open>P\<close> pinned, no entry of \<open>carouselTracks\<close> is equal to \<open>P\<close>
  in the sense of the comparison \<^verbatim>\<open>isEqualTrackRef\<close> the component is given, whatever
  that comparison is.
\<close>

theorem C5_carousel_excludes_pinned:
  "\<forall>track \<in> set (carouselTracks isEqual tracks (Some P)). \<not> isEqual track (Some P)"
  by (simp add: carouselTracks_def)

text \<open>An instance: the pinned screen share is taken out, camera and placeholder stay.\<close>

theorem C5_witness:
  "carouselTracks isEqualTrackRef [c1, s1, p1] (Some s1) = [c1, p1] \<and>
   \<not> isEqualTrackRef c1 (Some s1) \<and> \<not> isEqualTrackRef p1 (Some s1)"
  using C5_carousel_excludes_pinned [of isEqualTrackRef "[c1, s1, p1]" s1]
  by (simp add: carouselTracks_def isEqualTrackRef_def c1_def s1_def p1_def)

text \<open>
  Claim C6. The layout is a function of the pinned tracks and the snapshot alone, defined
  on every input: without a pinned track it is the grid over the whole snapshot,
  placeholders included; with a pinned track \<open>P\<close> it is the focus layout of \<open>P\<close> with
  the snapshot less the entries equal to \<open>P\<close> in the carousel.
\<close>

theorem C6_layout_selector:
  "VideoConference_layout isEqual tracks None = GridLayout tracks \<and>
   VideoConference_layout isEqual tracks (Some []) = GridLayout tracks \<and>
   VideoConference_layout isEqual tracks (Some (P # ps)) =
     FocusLayoutContainer (filter (\<lambda>track. \<not> isEqual track (Some P)) tracks) P"
  by (simp add: VideoConference_layout_def carouselTracks_def)

text \<open>
  Claim C4, as amended. On the empty snapshot the effect takes no action when the ref is
  empty, and passes \<open>clear_pin\<close> and empties the ref when the ref holds a track. The
  layout is the grid over the empty list when no track is pinned, and the focus layout of
  the pinned track with an empty carousel when one is.
\<close>

theorem C4_empty_snapshot:
  "autoFocusEffect [] focus None = ([], None) \<and>
   autoFocusEffect [] focus (Some lastRef) = ([clear_pin], None) \<and>
   VideoConference_layout isEqual [] None = GridLayout [] \<and>
   VideoConference_layout isEqual [] (Some []) = GridLayout [] \<and>
   VideoConference_layout isEqual [] (Some (P # ps)) = FocusLayoutContainer [] P"
  by (simp add: autoFocusEffect_def screenShareTracks_def
      VideoConference_layout_def carouselTracks_def)

text \<open>
  The claim as first stated fails on the empty snapshot when the ref holds \<open>s1\<close> and
  \<open>s1\<close> is pinned: the effect acts, and the layout is not the grid.
\<close>

theorem C4_counterexample:
  "fst (autoFocusEffect [] (Some s1) (Some s1)) \<noteq> [] \<and>
   VideoConference_layout isEqualTrackRef [] (Some [s1]) \<noteq> GridLayout []"
  by (simp add: autoFocusEffect_def screenShareTracks_def
      VideoConference_layout_def)

section \<open>Properties of the waiting toast\<close>

text \<open>Callbacks that fire together: the first clears the message, the others find it cleared.\<close>

lemma fold_setWaiting_None:
  "fold (\<lambda>_. setWaiting None) ds st = (if ds = [] then st else st\<lparr>waiting := None\<rparr>)"
proof (induction ds arbitrary: st)
  case Nil
  then show ?case by simp
next
  case (Cons d ds)
  then show ?case by (simp add: setWaiting_def waitingEffect_def)
qed

lemma advance_eq:
  "advance t st =
     (if filter (\<lambda>d. d \<le> t) (timers st) = []
      then st\<lparr>timers := filter (\<lambda>d. \<not> d \<le> t) (timers st), now := max (now st) t\<rparr>
      else st\<lparr>timers := filter (\<lambda>d. \<not> d \<le> t) (timers st), now := max (now st) t,
              waiting := None\<rparr>)"
  by (simp add: advance_def fold_setWaiting_None)

text \<open>
  No call of \<^verbatim>\<open>setWaitingMessage\<close> removes a pending callback: it adds one when it
  changes the message to a non-empty string, and none otherwise.
\<close>

lemma setWaitingMessage_timers:
  "timers (setWaitingMessage showParticipantButton message st) =
     timers st @
       (if showParticipantButton \<and> waiting st \<noteq> Some message \<and> message \<noteq> []
        then [now st + 3000] else [])"
  by (simp add: setWaitingMessage_def setWaiting_def waitingEffect_def)

text \<open>
  In general: after a non-empty message at \<open>t0\<close> and a non-empty message less than
  3000 ms later, the second message is shown until the first callback fires at
  \<open>t0 + 3000\<close>, and no longer.
\<close>

lemma replacement_cleared_by_first_expiry:
  assumes "m1 \<noteq> []" and "m2 \<noteq> []" and "g < 3000" and "t0 + g \<le> t"
  shows "timers (setWaitingMessage True m2
             (advance (t0 + g) (setWaitingMessage True m1 (mounted t0)))) =
           (if m1 = m2 then [t0 + 3000] else [t0 + 3000, t0 + g + 3000])
         \<and> toast (advance t (setWaitingMessage True m2
             (advance (t0 + g) (setWaitingMessage True m1 (mounted t0))))) =
           (if t < t0 + 3000 then Some m2 else None)"
  using assms
  by (simp add: advance_eq setWaitingMessage_def setWaiting_def waitingEffect_def
      mounted_def toast_def)

text \<open>
  Claim C3, at the input it names. With \<^verbatim>\<open>showParticipantButton\<close> true, message A is
  set at 0 ms and message B at 1000 ms. The source registers a second callback and leaves
  the first one pending. B is shown at 2999 ms; the callback registered for A fires at
  3000 ms and clears B, 2000 ms after B was set; at 1000 + 2999 ms, where the claim has
  B visible, no toast is shown.
\<close>

theorem C3_stale_expiry_clears_replacement:
  "timers (setWaitingMessage True ''B'' (advance 1000 (setWaitingMessage True ''A'' (mounted 0))))
     = [3000, 4000] \<and>
   toast (advance 2999
     (setWaitingMessage True ''B'' (advance 1000 (setWaitingMessage True ''A'' (mounted 0)))))
     = Some ''B'' \<and>
   toast (advance 3000
     (setWaitingMessage True ''B'' (advance 1000 (setWaitingMessage True ''A'' (mounted 0)))))
     = None \<and>
   toast (advance 3999
     (setWaitingMessage True ''B'' (advance 1000 (setWaitingMessage True ''A'' (mounted 0)))))
     = None"
  by (simp add: advance_eq setWaitingMessage_def setWaiting_def waitingEffect_def
      mounted_def toast_def)

text \<open>
  Claim C8. With \<^verbatim>\<open>showParticipantButton\<close> false, \<^verbatim>\<open>setWaitingMessage\<close> returns the state
  it was given, for every message: nothing is stored, nothing is scheduled, and after
  mounting there is still no message and no toast. The function has no other result, so
  nothing is reported.
\<close>

theorem C8_gated_noop:
  "setWaitingMessage False message st = st \<and>
   waiting (setWaitingMessage False message (mounted t)) = None \<and>
   toast (setWaitingMessage False message (mounted t)) = None"
  by (simp add: setWaitingMessage_def mounted_def toast_def)

text \<open>
  Claim C10. With \<^verbatim>\<open>showParticipantButton\<close> true, the empty message is stored as the
  value of \<^verbatim>\<open>waiting\<close>, the call registers no callback, and no toast is shown. After
  mounting, the empty message stays stored however much time passes, as no callback was
  registered to clear it.
\<close>

theorem C10_empty_message:
  "waiting (setWaitingMessage True [] st) = Some [] \<and>
   timers (setWaitingMessage True [] st) = timers st \<and>
   toast (setWaitingMessage True [] st) = None \<and>
   advance t (setWaitingMessage True [] (mounted t0)) =
     \<lparr>waiting = Some [], timers = [], now = max t0 t\<rparr>"
  by (simp add: advance_eq setWaitingMessage_def setWaiting_def waitingEffect_def
      mounted_def toast_def)

end
